theory Spec2Isabelle
  imports Complex_Main
begin

section \<open>Untyped JavaScript values\<close>

text \<open>
  The validators of \<^verbatim>\<open>src/crews/types.ts\<close> take a value of type \<^verbatim>\<open>unknown\<close>.
  A JavaScript number is modelled by a real (the finite values) or by \<open>JNaN\<close>; the two
  infinities are left out. A string is a list of 8-bit characters, so a UTF-16 code unit
  above 255 has no counterpart; none of them is accepted by the identifier pattern.
  An object is an association list; a property that is absent reads as \<open>undefined\<close>.
\<close>

datatype jsval =
    JUndefined
  | JNull
  | JBool bool
  | JNum real
  | JNaN
  | JStr string
  | JArr "jsval list"
  | JObj "(string \<times> jsval) list"

definition get_field :: "(string \<times> jsval) list \<Rightarrow> string \<Rightarrow> jsval" where
  "get_field kvs k = (case map_of kvs k of None \<Rightarrow> JUndefined | Some v \<Rightarrow> v)"

section \<open>The data model of \<^verbatim>\<open>src/crews/types.ts\<close>\<close>

text \<open>
  \<open>CrewToolConfig\<close> is the configuration as the schema returns it: the two fields with a
  default are always present after parsing. \<open>output\<close> is a keyword of the theory language,
  hence the quotes in the declaration of \<open>CrewResult\<close>.
\<close>

record CrewToolConfig =
  pythonExecutable :: string
  crewAgentsPath :: "string option"
  defaultTimeout :: real
  env :: "(string \<times> string) list option"

record InvokeCrewOptions =
  package :: string
  crew :: string
  input :: string
  timeout :: "real option"
  env :: "(string \<times> string) list option"

record CrewResult =
  success :: bool
  "output" :: "string option"
  error :: "string option"
  exitCode :: "int option"
  duration :: real

section \<open>The schema library\<close>

text \<open>
  \<^verbatim>\<open>parse\<close> of the schema library either returns the parsed value or throws an error
  that carries a non-empty list of issues. An issue has a code, the path of the offending
  property and, where the source supplies one, a custom message (the library's default
  texts are not part of the repository).
\<close>

datatype issue_code = invalid_type | too_small | invalid_string

datatype zod_issue =
  ZodIssue (issue_code: issue_code) (issue_path: "string list") (issue_message: "string option")

type_synonym 'a parse_result = "zod_issue list + 'a"

definition issues_of :: "'a parse_result \<Rightarrow> zod_issue list" where
  "issues_of r = (case r of Inl is \<Rightarrow> is | Inr _ \<Rightarrow> [])"

text \<open>\<^verbatim>\<open>z.string()\<close>\<close>

definition z_string :: "string list \<Rightarrow> jsval \<Rightarrow> string parse_result" where
  "z_string p v = (case v of JStr s \<Rightarrow> Inr s | _ \<Rightarrow> Inl [ZodIssue invalid_type p None])"

text \<open>\<^verbatim>\<open>/^[a-zA-Z0-9_-]+$/.test(s)\<close>: without the \<^verbatim>\<open>m\<close> flag, \<^verbatim>\<open>$\<close> matches at the end of
  the input only.\<close>

definition ident_char :: "char \<Rightarrow> bool" where
  "ident_char c \<longleftrightarrow>
     (let n = (of_char c :: nat) in
        (97 \<le> n \<and> n \<le> 122) \<or> (65 \<le> n \<and> n \<le> 90) \<or> (48 \<le> n \<and> n \<le> 57) \<or> n = 95 \<or> n = 45)"

definition ident_regex_test :: "string \<Rightarrow> bool" where
  "ident_regex_test s \<longleftrightarrow> s \<noteq> [] \<and> list_all ident_char s"

text \<open>\<^verbatim>\<open>z.string().min(1).regex(re, msg)\<close>: a value that is not a string stops at the type
  issue; on a string every check runs and adds its issue.\<close>

definition z_ident :: "string \<Rightarrow> string list \<Rightarrow> jsval \<Rightarrow> string parse_result" where
  "z_ident msg p v =
     (case z_string p v of
        Inl is \<Rightarrow> Inl is
      | Inr s \<Rightarrow>
          (let is = (if length s < 1 then [ZodIssue too_small p None] else []) @
                    (if ident_regex_test s then [] else [ZodIssue invalid_string p (Some msg)])
           in if is = [] then Inr s else Inl is))"

text \<open>\<^verbatim>\<open>z.number().positive()\<close>: \<^verbatim>\<open>NaN\<close> is not accepted as a number.\<close>

definition z_number :: "string list \<Rightarrow> jsval \<Rightarrow> real parse_result" where
  "z_number p v = (case v of JNum r \<Rightarrow> Inr r | _ \<Rightarrow> Inl [ZodIssue invalid_type p None])"

definition z_number_positive :: "string list \<Rightarrow> jsval \<Rightarrow> real parse_result" where
  "z_number_positive p v =
     (case z_number p v of
        Inl is \<Rightarrow> Inl is
      | Inr r \<Rightarrow> if r \<le> 0 then Inl [ZodIssue too_small p None] else Inr r)"

text \<open>\<^verbatim>\<open>.optional()\<close> and \<^verbatim>\<open>.default(d)\<close>: only \<^verbatim>\<open>undefined\<close> counts as missing.\<close>

definition z_optional ::
  "(string list \<Rightarrow> jsval \<Rightarrow> 'a parse_result) \<Rightarrow> string list \<Rightarrow> jsval \<Rightarrow> 'a option parse_result" where
  "z_optional inner p v =
     (case v of
        JUndefined \<Rightarrow> Inr None
      | _ \<Rightarrow> (case inner p v of Inl is \<Rightarrow> Inl is | Inr x \<Rightarrow> Inr (Some x)))"

definition z_default ::
  "(string list \<Rightarrow> jsval \<Rightarrow> 'a parse_result) \<Rightarrow> jsval \<Rightarrow> string list \<Rightarrow> jsval \<Rightarrow> 'a parse_result" where
  "z_default inner d p v = inner p (case v of JUndefined \<Rightarrow> d | _ \<Rightarrow> v)"

text \<open>\<^verbatim>\<open>z.record(z.string(), z.string())\<close>: every own property is parsed, in order.\<close>

fun z_record_entries ::
  "string list \<Rightarrow> (string \<times> jsval) list \<Rightarrow> (string \<times> string) list parse_result" where
  "z_record_entries p [] = Inr []"
| "z_record_entries p ((k, x) # kvs) =
     (case (z_string (p @ [k]) x, z_record_entries p kvs) of
        (Inr s, Inr r) \<Rightarrow> Inr ((k, s) # r)
      | (a, b) \<Rightarrow> Inl (issues_of a @ issues_of b))"

definition z_record_string :: "string list \<Rightarrow> jsval \<Rightarrow> (string \<times> string) list parse_result" where
  "z_record_string p v =
     (case v of JObj kvs \<Rightarrow> z_record_entries p kvs | _ \<Rightarrow> Inl [ZodIssue invalid_type p None])"

section \<open>The two schemas and their validators\<close>

text \<open>\<^verbatim>\<open>z.object({...})\<close> reads the properties of its shape and drops every other one; the
  issues of all properties are collected.\<close>

definition CrewToolConfigSchema :: "jsval \<Rightarrow> CrewToolConfig parse_result" where
  "CrewToolConfigSchema v =
     (case v of
        JObj kvs \<Rightarrow>
          (let a = z_default z_string (JStr ''uv'') [''pythonExecutable'']
                     (get_field kvs ''pythonExecutable'');
               b = z_optional z_string [''crewAgentsPath''] (get_field kvs ''crewAgentsPath'');
               c = z_default z_number_positive (JNum 300000) [''defaultTimeout'']
                     (get_field kvs ''defaultTimeout'');
               d = z_optional z_record_string [''env''] (get_field kvs ''env'')
           in case (a, b, c, d) of
                (Inr a', Inr b', Inr c', Inr d') \<Rightarrow>
                  Inr \<lparr>pythonExecutable = a', crewAgentsPath = b', defaultTimeout = c', env = d'\<rparr>
              | _ \<Rightarrow> Inl (issues_of a @ issues_of b @ issues_of c @ issues_of d))
      | _ \<Rightarrow> Inl [ZodIssue invalid_type [] None])"

definition InvokeCrewOptionsSchema :: "jsval \<Rightarrow> InvokeCrewOptions parse_result" where
  "InvokeCrewOptionsSchema v =
     (case v of
        JObj kvs \<Rightarrow>
          (let a = z_ident ''Package name must be alphanumeric with hyphens or underscores''
                     [''package''] (get_field kvs ''package'');
               b = z_ident ''Crew name must be alphanumeric with hyphens or underscores''
                     [''crew''] (get_field kvs ''crew'');
               c = z_string [''input''] (get_field kvs ''input'');
               d = z_optional z_number_positive [''timeout''] (get_field kvs ''timeout'');
               e = z_optional z_record_string [''env''] (get_field kvs ''env'')
           in case (a, b, c, d, e) of
                (Inr a', Inr b', Inr c', Inr d', Inr e') \<Rightarrow>
                  Inr \<lparr>package = a', crew = b', input = c', timeout = d', env = e'\<rparr>
              | _ \<Rightarrow> Inl (issues_of a @ issues_of b @ issues_of c @ issues_of d @ issues_of e))
      | _ \<Rightarrow> Inl [ZodIssue invalid_type [] None])"

definition validateConfig :: "jsval \<Rightarrow> CrewToolConfig parse_result" where
  "validateConfig config = CrewToolConfigSchema config"

definition validateInvokeOptions :: "jsval \<Rightarrow> InvokeCrewOptions parse_result" where
  "validateInvokeOptions options = InvokeCrewOptionsSchema options"

section \<open>Errors\<close>

text \<open>
  \<^verbatim>\<open>class CrewToolError extends Error\<close>: the constructor calls \<^verbatim>\<open>super(message)\<close>, which
  sets \<open>message\<close> (and the name \<^verbatim>\<open>Error\<close>), and then overwrites \<open>name\<close>. The two public
  constructor parameters become the fields \<open>category\<close> and \<open>details\<close>.
\<close>

record Error =
  name :: string
  message :: string

datatype CrewToolErrorCategory = Config | Validation | Subprocess | Crew | Communication

record CrewToolError = Error +
  category :: CrewToolErrorCategory
  details :: "(string \<times> jsval) list option"

definition new_Error :: "string \<Rightarrow> Error" where
  "new_Error msg = \<lparr>name = ''Error'', message = msg\<rparr>"

definition new_CrewToolError ::
  "string \<Rightarrow> CrewToolErrorCategory \<Rightarrow> (string \<times> jsval) list option \<Rightarrow> CrewToolError" where
  "new_CrewToolError msg cat det =
     Error.extend (new_Error msg) (CrewToolError.fields cat det) \<lparr>name := ''CrewToolError''\<rparr>"

text \<open>What a statement of the \<^verbatim>\<open>try\<close> block can throw: a \<open>CrewToolError\<close>, or any other
  error, of which only the message is used.\<close>

datatype thrown = ThrownCrewToolError CrewToolError | ThrownOther string

text \<open>The \<^verbatim>\<open>catch\<close> block of \<^verbatim>\<open>invokeCrew\<close>: a \<open>CrewToolError\<close> is thrown again as it is, any
  other error is wrapped.\<close>

definition catch_block :: "thrown \<Rightarrow> CrewToolError" where
  "catch_block e =
     (case e of
        ThrownCrewToolError c \<Rightarrow> c
      | ThrownOther m \<Rightarrow>
          new_CrewToolError (''Unexpected error: '' @ m) Subprocess
            (Some [(''originalError'', JObj [(''message'', JStr m)])]))"

section \<open>The child process\<close>

text \<open>
  The spawned program belongs to the environment. An \<open>ExitEvent\<close> is the \<^verbatim>\<open>exit\<close> event
  of the process as the supervisor observes it: when it comes, the exit code (\<^verbatim>\<open>null\<close>
  when a signal ended the process) and the \<^verbatim>\<open>data\<close> events of the two streams that were
  delivered before it, in arrival order. A \<open>ChildProcess\<close> says what the program does when
  it is left alone (\<open>natural\<close>, the time counted from the spawn; \<open>None\<close> when it never
  exits) and what it does once \<^verbatim>\<open>SIGTERM\<close> is delivered (\<open>after_SIGTERM\<close>, the time counted
  from the signal; \<open>None\<close> when it never exits).
\<close>

datatype signal = SIGTERM | SIGKILL

record ExitEvent =
  exit_after :: nat
  exit_code :: "int option"
  stdout_chunks :: "string list"
  stderr_chunks :: "string list"

record ChildProcess =
  natural :: "ExitEvent option"
  after_SIGTERM :: "ExitEvent option"

text \<open>\<^verbatim>\<open>spawn\<close> either throws (the message of the error is kept) or returns the handle of
  a process.\<close>

datatype spawn_result = SpawnThrows string | Spawned ChildProcess

text \<open>
  The effects of a call on its environment: the call of \<^verbatim>\<open>spawn\<close> with the executable,
  the arguments and the \<^verbatim>\<open>env\<close> option (\<open>None\<close> when the call gives no such option),
  \<^verbatim>\<open>setTimeout\<close> with the delay it is given, a call of \<^verbatim>\<open>proc.kill\<close> with its signal and
  the time of the call, and \<^verbatim>\<open>clearTimeout\<close>. Times are in milliseconds since the spawn.
\<close>

datatype effect =
    Spawn string "string list" "(string \<rightharpoonup> string) option"
  | SetTimeout real
  | Kill signal real
  | ClearTimeout

section \<open>The supervisor: \<^verbatim>\<open>invokeCrew\<close>\<close>

text \<open>\<^verbatim>\<open>stdout += data\<close> for each chunk, starting from the empty string.\<close>

definition collect :: "string list \<Rightarrow> string" where
  "collect chunks = foldl (\<lambda>acc data. acc @ data) [] chunks"

text \<open>\<^verbatim>\<open>String.prototype.trim\<close> on the characters of the model: tab, line feed, vertical
  tab, form feed, carriage return, space and no-break space.\<close>

definition is_space :: "char \<Rightarrow> bool" where
  "is_space c \<longleftrightarrow> (let n = (of_char c :: nat) in (9 \<le> n \<and> n \<le> 13) \<or> n = 32 \<or> n = 160)"

definition trim :: "string \<Rightarrow> string" where
  "trim s = rev (dropWhile is_space (rev (dropWhile is_space s)))"

text \<open>\<^verbatim>\<open>options.timeout ?? this.config.defaultTimeout\<close>\<close>

definition effective_timeout :: "CrewToolConfig \<Rightarrow> InvokeCrewOptions \<Rightarrow> real" where
  "effective_timeout config options =
     (case timeout options of Some t \<Rightarrow> t | None \<Rightarrow> defaultTimeout config)"

definition crew_args :: "InvokeCrewOptions \<Rightarrow> string list" where
  "crew_args options =
     [''run'', ''crew-agents'', ''run'', package options, crew options, ''--input'', input options]"

text \<open>
  When a timer of \<^verbatim>\<open>setTimeout(f, d)\<close> fires: the platform replaces a delay below 1 or above
  2147483647 by 1 and drops the fraction of any other delay.
\<close>

definition setTimeout_delay :: "real \<Rightarrow> real" where
  "setTimeout_delay d = (if 1 \<le> d \<and> d \<le> 2147483647 then of_int \<lfloor>d\<rfloor> else 1)"

text \<open>
  The race of the timer against the \<^verbatim>\<open>exit\<close> event. The timer is set when the process is
  spawned and fires at \<open>ms\<close>; an exit strictly before \<open>ms\<close> wins, otherwise the callback
  runs \<^verbatim>\<open>proc.kill()\<close> (which sends \<^verbatim>\<open>SIGTERM\<close>) at \<open>ms\<close> and the promise waits for the
  exit that follows. The result is the signals sent, the exit event and its time since the
  spawn, or \<open>None\<close> when no exit event ever comes.
\<close>

definition after_kill :: "ChildProcess \<Rightarrow> real \<Rightarrow> (effect list \<times> ExitEvent \<times> real) option" where
  "after_kill proc ms =
     (case after_SIGTERM proc of
        None \<Rightarrow> None
      | Some e \<Rightarrow> Some ([Kill SIGTERM ms], e, ms + real (exit_after e)))"

definition await_exit :: "ChildProcess \<Rightarrow> real \<Rightarrow> (effect list \<times> ExitEvent \<times> real) option" where
  "await_exit proc ms =
     (case natural proc of
        None \<Rightarrow> after_kill proc ms
      | Some e \<Rightarrow>
          if real (exit_after e) < ms then Some ([], e, real (exit_after e))
          else after_kill proc ms)"

text \<open>
  The two \<^verbatim>\<open>return\<close> statements. \<open>elapsed\<close> is \<^verbatim>\<open>Date.now() - startTime\<close>. The listing
  does not declare \<^verbatim>\<open>startTime\<close>; following the spec (a start timestamp is recorded, then
  the child is started) it is the clock value at the spawn, so that \<open>elapsed\<close> is the time
  of the exit event since the spawn.
\<close>

definition crew_result :: "ExitEvent \<Rightarrow> real \<Rightarrow> CrewResult" where
  "crew_result e elapsed =
     (let stdout = collect (stdout_chunks e);
          stderr = collect (stderr_chunks e);
          exitCode = (case exit_code e of Some c \<Rightarrow> c | None \<Rightarrow> 1)
      in if exitCode = 0 then
           \<lparr>success = True, output = Some (trim stdout), error = None,
            exitCode = Some exitCode, duration = elapsed\<rparr>
         else
           \<lparr>success = False, output = None,
            error = Some (if stderr \<noteq> [] then stderr else ''Crew execution failed''),
            exitCode = Some exitCode, duration = elapsed\<rparr>)"

text \<open>
  What a call does: the effects in order, and how the returned promise settles (\<open>Inl\<close>:
  rejected with the error, \<open>Inr\<close>: resolved with the result, \<open>None\<close>: never settled).
\<close>

record Outcome =
  effects :: "effect list"
  settled :: "(CrewToolError + CrewResult) option"

text \<open>
  \<^verbatim>\<open>invokeCrew\<close> of the design document. \<^verbatim>\<open>this.validateOptions\<close> and \<^verbatim>\<open>spawn\<close> are
  parameters: the first is a method that the listing does not show, the second is the
  environment. The listing calls \<^verbatim>\<open>spawn\<close> with the executable and the arguments and
  with no options, and \<^verbatim>\<open>setTimeout\<close> with the effective timeout.
\<close>

definition invokeCrew ::
  "(InvokeCrewOptions \<Rightarrow> thrown option) \<Rightarrow> (string \<Rightarrow> string list \<Rightarrow> spawn_result) \<Rightarrow>
   CrewToolConfig \<Rightarrow> InvokeCrewOptions \<Rightarrow> Outcome" where
  "invokeCrew validateOptions spawn config options =
     (case validateOptions options of
        Some e \<Rightarrow> \<lparr>effects = [], settled = Some (Inl (catch_block e))\<rparr>
      | None \<Rightarrow>
          (let exe = pythonExecutable config; args = crew_args options in
           case spawn exe args of
             SpawnThrows m \<Rightarrow>
               \<lparr>effects = [Spawn exe args None],
                settled = Some (Inl (catch_block (ThrownOther m)))\<rparr>
           | Spawned proc \<Rightarrow>
               (let ms = effective_timeout config options; fire = setTimeout_delay ms in
                case await_exit proc fire of
                  None \<Rightarrow>
                    \<lparr>effects = [Spawn exe args None, SetTimeout ms, Kill SIGTERM fire],
                     settled = None\<rparr>
                | Some (kills, e, elapsed) \<Rightarrow>
                    \<lparr>effects = [Spawn exe args None, SetTimeout ms] @ kills @ [ClearTimeout],
                     settled = Some (Inr (crew_result e elapsed))\<rparr>)))"

section \<open>Signal escalation\<close>

text \<open>
  The listing \<^emph>\<open>Timeout Implementation\<close> of the design document: the timer callback sends
  \<^verbatim>\<open>SIGTERM\<close> and sets a second timer of 5000 ms that sends \<^verbatim>\<open>SIGKILL\<close>; the \<^verbatim>\<open>exit\<close>
  handler clears the first timer. \<^verbatim>\<open>kill\<close> on a process that has exited delivers nothing.
  The value is the list of signals delivered to the process, for a first timer that fires
  at \<open>ms\<close>.
\<close>

definition timeout_implementation :: "ChildProcess \<Rightarrow> real \<Rightarrow> effect list" where
  "timeout_implementation proc ms =
     (if (case natural proc of None \<Rightarrow> False | Some e \<Rightarrow> real (exit_after e) < ms) then []
      else Kill SIGTERM ms #
        (if (case after_SIGTERM proc of None \<Rightarrow> False | Some e \<Rightarrow> exit_after e < 5000) then []
         else [Kill SIGKILL (ms + 5000)]))"

section \<open>The environment of the child\<close>

text \<open>
  The listing \<^emph>\<open>Subprocess Execution\<close>: \<^verbatim>\<open>env: { ...process.env, ...additionalEnv }\<close>. An
  environment is a map from names to values; in an object spread the later operand wins.
\<close>

definition env_map :: "(string \<times> string) list option \<Rightarrow> (string \<rightharpoonup> string)" where
  "env_map e = (case e of None \<Rightarrow> Map.empty | Some kvs \<Rightarrow> map_of kvs)"

definition spawn_env :: "(string \<rightharpoonup> string) \<Rightarrow> (string \<rightharpoonup> string) \<Rightarrow> (string \<rightharpoonup> string)" where
  "spawn_env process_env additionalEnv = process_env ++ additionalEnv"

text \<open>
  Modelled from the spec: \<^verbatim>\<open>additionalEnv\<close>, which the listing uses and does not define.
  The spec: the effective environment is the configuration's base environment merged with
  the request's extra environment, the entries of the latter taking precedence on key
  collision, merged on top of the ambient process environment.
\<close>

definition additionalEnv :: "CrewToolConfig \<Rightarrow> InvokeCrewOptions \<Rightarrow> (string \<rightharpoonup> string)" where
  "additionalEnv config options =
     env_map (CrewToolConfig.env config) ++ env_map (InvokeCrewOptions.env options)"

text \<open>The \<^verbatim>\<open>env\<close> option of the listing, with \<open>additionalEnv\<close> as modelled above.\<close>

definition child_env ::
  "(string \<rightharpoonup> string) \<Rightarrow> CrewToolConfig \<Rightarrow> InvokeCrewOptions \<Rightarrow> (string \<rightharpoonup> string)" where
  "child_env process_env config options = spawn_env process_env (additionalEnv config options)"

text \<open>
  What the child observes: the \<^verbatim>\<open>env\<close> option of the \<^verbatim>\<open>spawn\<close> call and, when the call
  gives none, the environment of the calling process.
\<close>

definition observed_env :: "(string \<rightharpoonup> string) \<Rightarrow> (string \<rightharpoonup> string) option \<Rightarrow> (string \<rightharpoonup> string)" where
  "observed_env process_env env_option =
     (case env_option of None \<Rightarrow> process_env | Some e \<Rightarrow> e)"

text \<open>The environments of the children that a list of effects spawns.\<close>

fun spawned_envs :: "(string \<rightharpoonup> string) \<Rightarrow> effect list \<Rightarrow> (string \<rightharpoonup> string) list" where
  "spawned_envs process_env [] = []"
| "spawned_envs process_env (Spawn exe args env_option # es) =
     observed_env process_env env_option # spawned_envs process_env es"
| "spawned_envs process_env (SetTimeout d # es) = spawned_envs process_env es"
| "spawned_envs process_env (Kill sig t # es) = spawned_envs process_env es"
| "spawned_envs process_env (ClearTimeout # es) = spawned_envs process_env es"

section \<open>The request validator inside the supervisor\<close>

text \<open>A typed request seen as an untyped value: the types are erased at run time.\<close>

definition js_of_env :: "(string \<times> string) list \<Rightarrow> jsval" where
  "js_of_env e = JObj (map (\<lambda>(k, s). (k, JStr s)) e)"

definition js_of_options :: "InvokeCrewOptions \<Rightarrow> jsval" where
  "js_of_options r =
     JObj ([(''package'', JStr (package r)), (''crew'', JStr (crew r)), (''input'', JStr (input r))] @
           (case timeout r of None \<Rightarrow> [] | Some t \<Rightarrow> [(''timeout'', JNum t)]) @
           (case InvokeCrewOptions.env r of None \<Rightarrow> [] | Some e \<Rightarrow> [(''env'', js_of_env e)]))"

text \<open>
  Modelled from the spec: the message of the error that the request validator raises, whose
  text is not among the sources. The spec: the first failure wins and the message must name
  the failing field.
\<close>

definition failing_field :: "zod_issue list \<Rightarrow> string" where
  "failing_field is =
     (case is of
        [] \<Rightarrow> []
      | i # _ \<Rightarrow> (case issue_path i of [] \<Rightarrow> [] | f # _ \<Rightarrow> f))"

text \<open>
  Modelled from the spec: \<^verbatim>\<open>validateOptions\<close>, the method of \<^verbatim>\<open>CrewTool\<close> that
  \<^verbatim>\<open>invokeCrew\<close> calls first; its file \<^verbatim>\<open>src/crews/crew-tool.ts\<close> is not among the sources.
  The spec: the request validator returns a normalized request or raises an error of
  category validation. The checks themselves are those of \<open>validateInvokeOptions\<close>.
\<close>

definition validateOptions :: "InvokeCrewOptions \<Rightarrow> thrown option" where
  "validateOptions options =
     (case validateInvokeOptions (js_of_options options) of
        Inr _ \<Rightarrow> None
      | Inl is \<Rightarrow> Some (ThrownCrewToolError (new_CrewToolError (failing_field is) Validation None)))"

section \<open>Concrete runs\<close>

text \<open>A configuration, a request, an ambient environment and some behaviours of the
  environment, for the evaluations below.\<close>

definition sample_config :: CrewToolConfig where
  "sample_config =
     \<lparr>pythonExecutable = ''uv'', crewAgentsPath = Some ''./python'', defaultTimeout = 5000,
      env = Some [(''A'', ''1'')]\<rparr>"

definition sample_options :: InvokeCrewOptions where
  "sample_options =
     \<lparr>package = ''pkg'', crew = ''fails'', input = ''x'', timeout = Some 1000,
      env = Some [(''A'', ''2''), (''B'', ''3'')]\<rparr>"

definition sample_ambient :: "string \<rightharpoonup> string" where
  "sample_ambient = [''A'' \<mapsto> ''0'', ''HOME'' \<mapsto> ''/root'']"

text \<open>
  The configuration that \<open>validateConfig\<close> returns for \<^verbatim>\<open>{ pythonExecutable: '' }\<close>: the
  schema asks for a string and accepts the empty one.
\<close>

definition empty_executable_config :: CrewToolConfig where
  "empty_executable_config =
     \<lparr>pythonExecutable = [], crewAgentsPath = None, defaultTimeout = 300000, env = None\<rparr>"

text \<open>
  \<^verbatim>\<open>spawn\<close> of the platform, as far as the evaluations need it: an empty file name is
  refused by a synchronous throw (\<^verbatim>\<open>ERR_INVALID_ARG_VALUE\<close>); for any other file name a
  handle is returned, here for a child that behaves as \<open>proc\<close>.
\<close>

definition empty_file_message :: string where
  "empty_file_message =
     ''The argument '' @ [CHR 0x27] @ ''file'' @ [CHR 0x27] @ '' cannot be empty. Received '' @
     [CHR 0x27, CHR 0x27]"

definition node_spawn :: "ChildProcess \<Rightarrow> string \<Rightarrow> string list \<Rightarrow> spawn_result" where
  "node_spawn proc file args = (if file = [] then SpawnThrows empty_file_message else Spawned proc)"

text \<open>A program that writes \<^verbatim>\<open>boom\<close> to its standard error in two chunks and exits with
  code 2 after 20 ms.\<close>

definition failing_process :: ChildProcess where
  "failing_process =
     \<lparr>natural = Some \<lparr>exit_after = 20, exit_code = Some 2, stdout_chunks = [],
                       stderr_chunks = [''bo'', ''om'']\<rparr>,
      after_SIGTERM = None\<rparr>"

definition spawn_failing :: "string \<Rightarrow> string list \<Rightarrow> spawn_result" where
  "spawn_failing = node_spawn failing_process"

text \<open>A program that writes \<^verbatim>\<open>hello world\<close>, surrounded by whitespace, to its standard
  output and exits with code 0 after 30 ms; and one that exits with code 0 and writes
  nothing.\<close>

definition succeeding_process :: ChildProcess where
  "succeeding_process =
     \<lparr>natural = Some \<lparr>exit_after = 30, exit_code = Some 0,
                       stdout_chunks = [''  hello'', '' world'' @ [CHR 0x0A]],
                       stderr_chunks = [''warning'']\<rparr>,
      after_SIGTERM = None\<rparr>"

definition spawn_succeeding :: "string \<Rightarrow> string list \<Rightarrow> spawn_result" where
  "spawn_succeeding = node_spawn succeeding_process"

definition silent_process :: ChildProcess where
  "silent_process =
     \<lparr>natural = Some \<lparr>exit_after = 5, exit_code = Some 0, stdout_chunks = [],
                       stderr_chunks = []\<rparr>,
      after_SIGTERM = None\<rparr>"

definition spawn_silent :: "string \<Rightarrow> string list \<Rightarrow> spawn_result" where
  "spawn_silent = node_spawn silent_process"

text \<open>A program that never exits by itself, writes nothing to its standard error, and is
  ended by \<^verbatim>\<open>SIGTERM\<close> 10 ms after the signal (exit code \<^verbatim>\<open>null\<close>).\<close>

definition hanging_process :: ChildProcess where
  "hanging_process =
     \<lparr>natural = None,
      after_SIGTERM = Some \<lparr>exit_after = 10, exit_code = None, stdout_chunks = [''partial''],
                             stderr_chunks = []\<rparr>\<rparr>"

definition spawn_hanging :: "string \<Rightarrow> string list \<Rightarrow> spawn_result" where
  "spawn_hanging = node_spawn hanging_process"

text \<open>
  A child whose \<^verbatim>\<open>exit\<close> event never comes, whether or not \<^verbatim>\<open>SIGTERM\<close> is sent: a program
  that runs on and ignores the signal. A handle whose process could not be created because
  the executable does not exist behaves the same way towards the listing: the platform
  reports the failure by an \<^verbatim>\<open>error\<close> event, for which the listing has no listener, and
  emits no \<^verbatim>\<open>exit\<close> event.
\<close>

definition never_exits :: ChildProcess where
  "never_exits = \<lparr>natural = None, after_SIGTERM = None\<rparr>"

definition spawn_never_exits :: "string \<Rightarrow> string list \<Rightarrow> spawn_result" where
  "spawn_never_exits = node_spawn never_exits"

text \<open>A program that never exits by itself, handles \<^verbatim>\<open>SIGTERM\<close> and exits with code 0 one
  minute after the signal.\<close>

definition lingering_process :: ChildProcess where
  "lingering_process =
     \<lparr>natural = None,
      after_SIGTERM = Some \<lparr>exit_after = 60000, exit_code = Some 0, stdout_chunks = [''done''],
                             stderr_chunks = []\<rparr>\<rparr>"

definition spawn_lingering :: "string \<Rightarrow> string list \<Rightarrow> spawn_result" where
  "spawn_lingering = node_spawn lingering_process"

section \<open>Facts about the schema library\<close>

lemma z_string_Inr: "z_string p v = Inr s \<Longrightarrow> v = JStr s"
  by (auto simp: z_string_def split: jsval.splits)

lemma z_string_Inl: "z_string p v = Inl is \<Longrightarrow> is \<noteq> []"
  by (auto simp: z_string_def split: jsval.splits)

lemma z_number_positive_Inr: "z_number_positive p v = Inr r \<Longrightarrow> v = JNum r \<and> 0 < r"
  by (auto simp: z_number_positive_def z_number_def split: jsval.splits if_splits)

lemma z_number_positive_Inl: "z_number_positive p v = Inl is \<Longrightarrow> is \<noteq> []"
  by (auto simp: z_number_positive_def z_number_def split: jsval.splits if_splits)

lemma z_ident_Inr: "z_ident msg p v = Inr s \<Longrightarrow> v = JStr s \<and> ident_regex_test s"
  by (auto simp: z_ident_def z_string_def Let_def split: jsval.splits if_splits)

lemma z_ident_Inl: "z_ident msg p v = Inl is \<Longrightarrow> is \<noteq> []"
  by (auto simp: z_ident_def z_string_def Let_def split: jsval.splits if_splits)

lemma z_ident_ok: "ident_regex_test s \<Longrightarrow> z_ident msg p (JStr s) = Inr s"
  by (auto simp: z_ident_def z_string_def ident_regex_test_def)

lemma z_record_entries_embed:
  "z_record_entries p (map (\<lambda>(k, s). (k, JStr s)) e) = Inr e"
  by (induction e) (auto simp: z_string_def)

lemma z_record_entries_Inr:
  "z_record_entries p kvs = Inr e \<Longrightarrow> kvs = map (\<lambda>(k, s). (k, JStr s)) e"
proof (induction kvs arbitrary: e)
  case Nil
  then show ?case by simp
next
  case (Cons a kvs)
  obtain k x where a: "a = (k, x)" by (cases a)
  from Cons.prems a obtain s r where
    "z_string (p @ [k]) x = Inr s" "z_record_entries p kvs = Inr r" "e = (k, s) # r"
    by (auto split: sum.splits)
  with Cons.IH a show ?case by (auto dest: z_string_Inr)
qed

lemma z_record_entries_Inl: "z_record_entries p kvs = Inl is \<Longrightarrow> is \<noteq> []"
proof (induction kvs arbitrary: "is")
  case Nil
  then show ?case by simp
next
  case (Cons a kvs)
  obtain k x where a: "a = (k, x)" by (cases a)
  show ?case
  proof (cases "z_string (p @ [k]) x")
    case (Inl js)
    with Cons.prems a show ?thesis
      by (auto simp: issues_of_def dest: z_string_Inl split: sum.splits)
  next
    case (Inr s)
    with Cons.prems a obtain js where "z_record_entries p kvs = Inl js" "is = js"
      by (auto simp: issues_of_def split: sum.splits)
    with Cons.IH show ?thesis by simp
  qed
qed

lemma z_record_string_Inr: "z_record_string p v = Inr e \<Longrightarrow> v = js_of_env e"
  by (auto simp: z_record_string_def js_of_env_def dest: z_record_entries_Inr split: jsval.splits)

lemma z_record_string_Inl: "z_record_string p v = Inl is \<Longrightarrow> is \<noteq> []"
  by (auto simp: z_record_string_def dest: z_record_entries_Inl split: jsval.splits)

lemma z_record_string_embed: "z_record_string p (js_of_env e) = Inr e"
  by (simp add: z_record_string_def js_of_env_def z_record_entries_embed)

lemma z_optional_Inr:
  "z_optional inner p v = Inr x \<Longrightarrow>
     (v = JUndefined \<and> x = None) \<or> (v \<noteq> JUndefined \<and> (\<exists>y. x = Some y \<and> inner p v = Inr y))"
  by (auto simp: z_optional_def split: jsval.splits sum.splits)

lemma z_optional_Inl:
  "z_optional inner p v = Inl is \<Longrightarrow> inner p v = Inl is"
  by (auto simp: z_optional_def split: jsval.splits sum.splits)

lemma options_Inr:
  assumes "validateInvokeOptions v = Inr r"
  obtains kvs where "v = JObj kvs"
    and "z_ident ''Package name must be alphanumeric with hyphens or underscores'' [''package''] (get_field kvs ''package'') = Inr (package r)"
    and "z_ident ''Crew name must be alphanumeric with hyphens or underscores'' [''crew''] (get_field kvs ''crew'') = Inr (crew r)"
    and "z_string [''input''] (get_field kvs ''input'') = Inr (input r)"
    and "z_optional z_number_positive [''timeout''] (get_field kvs ''timeout'') = Inr (timeout r)"
    and "z_optional z_record_string [''env''] (get_field kvs ''env'') = Inr (InvokeCrewOptions.env r)"
  using assms unfolding validateInvokeOptions_def InvokeCrewOptionsSchema_def
  by (auto simp: Let_def split: jsval.splits sum.splits)

lemma options_fields:
  assumes "validateInvokeOptions (JObj kvs) = Inr r"
  shows "get_field kvs ''package'' = JStr (package r)"
    and "get_field kvs ''crew'' = JStr (crew r)"
    and "get_field kvs ''input'' = JStr (input r)"
    and "get_field kvs ''timeout'' = (case timeout r of None \<Rightarrow> JUndefined | Some t \<Rightarrow> JNum t)"
    and "get_field kvs ''env'' = (case InvokeCrewOptions.env r of None \<Rightarrow> JUndefined | Some e \<Rightarrow> js_of_env e)"
    and "ident_regex_test (package r)" and "ident_regex_test (crew r)"
    and "\<forall>t. timeout r = Some t \<longrightarrow> 0 < t"
  using assms
  by (elim options_Inr; auto dest: z_ident_Inr z_string_Inr dest!: z_optional_Inr z_number_positive_Inr z_record_string_Inr)+

lemma options_embed:
  assumes "ident_regex_test (package r)" "ident_regex_test (crew r)" "\<forall>t. timeout r = Some t \<longrightarrow> 0 < t"
  shows "validateInvokeOptions (js_of_options r) = Inr r"
  using assms
  unfolding validateInvokeOptions_def InvokeCrewOptionsSchema_def js_of_options_def
  by (auto simp: Let_def get_field_def z_ident_ok z_string_def z_optional_def z_number_positive_def
      z_number_def z_record_string_embed js_of_env_def z_record_string_def z_record_entries_embed
      split: option.splits)

section \<open>Facts about the configuration validator\<close>

lemma get_field_unknown:
  "k' \<noteq> k \<Longrightarrow> get_field (xs @ (k, x) # ys) k' = get_field (xs @ ys) k'"
  by (simp add: get_field_def map_add_def split: option.splits)

lemma config_unknown_ignored:
  assumes "k \<notin> {''pythonExecutable'', ''crewAgentsPath'', ''defaultTimeout'', ''env''}"
  shows "validateConfig (JObj (xs @ (k, x) # ys)) = validateConfig (JObj (xs @ ys))"
proof -
  have "get_field (xs @ (k, x) # ys) f = get_field (xs @ ys) f"
    if "f \<in> {''pythonExecutable'', ''crewAgentsPath'', ''defaultTimeout'', ''env''}" for f
    using that assms by (intro get_field_unknown) auto
  then show ?thesis
    unfolding validateConfig_def CrewToolConfigSchema_def by simp
qed

lemma config_Inr:
  assumes "validateConfig v = Inr c"
  obtains kvs where "v = JObj kvs"
    and "z_default z_string (JStr ''uv'') [''pythonExecutable''] (get_field kvs ''pythonExecutable'') = Inr (pythonExecutable c)"
    and "z_optional z_string [''crewAgentsPath''] (get_field kvs ''crewAgentsPath'') = Inr (crewAgentsPath c)"
    and "z_default z_number_positive (JNum 300000) [''defaultTimeout''] (get_field kvs ''defaultTimeout'') = Inr (defaultTimeout c)"
    and "z_optional z_record_string [''env''] (get_field kvs ''env'') = Inr (CrewToolConfig.env c)"
  using assms unfolding validateConfig_def CrewToolConfigSchema_def
  by (auto simp: Let_def split: jsval.splits sum.splits)

lemma config_default_executable:
  assumes "validateConfig (JObj kvs) = Inr c" "get_field kvs ''pythonExecutable'' = JUndefined"
  shows "pythonExecutable c = ''uv''"
  using assms by (elim config_Inr) (auto simp: z_default_def z_string_def)

lemma config_default_timeout:
  assumes "validateConfig (JObj kvs) = Inr c" "get_field kvs ''defaultTimeout'' = JUndefined"
  shows "defaultTimeout c = 300000"
  using assms by (elim config_Inr) (auto simp: z_default_def z_number_positive_def z_number_def)

lemma config_timeout_positive:
  assumes "validateConfig v = Inr c"
  shows "0 < defaultTimeout c"
  using assms
  by (elim config_Inr) (auto simp: z_default_def dest!: z_number_positive_Inr split: jsval.splits)

lemma config_rejects_nonpositive:
  assumes "get_field kvs ''defaultTimeout'' = JNum r" "r \<le> 0"
  shows "\<exists>is. validateConfig (JObj kvs) = Inl is \<and> ZodIssue too_small [''defaultTimeout''] None \<in> set is"
  using assms unfolding validateConfig_def CrewToolConfigSchema_def
  by (auto simp: Let_def z_default_def z_number_positive_def z_number_def issues_of_def split: sum.splits)

lemma z_default_Inl:
  "z_default inner d p v = Inl is \<Longrightarrow> \<exists>w. inner p w = Inl is"
  by (auto simp: z_default_def)

lemma config_Inl_nonempty:
  assumes "validateConfig v = Inl is"
  shows "is \<noteq> []"
proof (cases v)
  case (JObj kvs)
  define a where "a = z_default z_string (JStr ''uv'') [''pythonExecutable''] (get_field kvs ''pythonExecutable'')"
  define b where "b = z_optional z_string [''crewAgentsPath''] (get_field kvs ''crewAgentsPath'')"
  define c where "c = z_default z_number_positive (JNum 300000) [''defaultTimeout''] (get_field kvs ''defaultTimeout'')"
  define d where "d = z_optional z_record_string [''env''] (get_field kvs ''env'')"
  have wa: "js \<noteq> []" if "a = Inl js" for js
    using that unfolding a_def by (auto dest!: z_default_Inl dest: z_string_Inl)
  have wb: "js \<noteq> []" if "b = Inl js" for js
    using that unfolding b_def by (auto dest!: z_optional_Inl dest: z_string_Inl)
  have wc: "js \<noteq> []" if "c = Inl js" for js
    using that unfolding c_def by (auto dest!: z_default_Inl dest: z_number_positive_Inl)
  have wd: "js \<noteq> []" if "d = Inl js" for js
    using that unfolding d_def by (auto dest!: z_optional_Inl dest: z_record_string_Inl)
  have "(case (a, b, c, d) of
           (Inr a', Inr b', Inr c', Inr d') \<Rightarrow>
             Inr \<lparr>pythonExecutable = a', crewAgentsPath = b', defaultTimeout = c', env = d'\<rparr>
         | _ \<Rightarrow> Inl (issues_of a @ issues_of b @ issues_of c @ issues_of d)) = Inl is"
    using assms JObj unfolding validateConfig_def CrewToolConfigSchema_def a_def b_def c_def d_def
    by (simp add: Let_def)
  then show ?thesis
    using wa wb wc wd
    by (cases a; cases b; cases c; cases d) (auto simp: issues_of_def)
qed (use assms in \<open>auto simp: validateConfig_def CrewToolConfigSchema_def\<close>)

lemmas eval_config =
  validateConfig_def CrewToolConfigSchema_def get_field_def z_default_def z_optional_def
  z_string_def z_number_positive_def z_number_def z_record_string_def issues_of_def

lemmas eval_options =
  validateInvokeOptions_def InvokeCrewOptionsSchema_def js_of_options_def js_of_env_def
  get_field_def z_ident_def z_string_def z_optional_def z_number_positive_def z_number_def
  z_record_string_def ident_regex_test_def ident_char_def issues_of_def

lemma config_accepts:
  assumes "get_field kvs ''pythonExecutable'' = JUndefined \<and> pythonExecutable c = ''uv''
           \<or> get_field kvs ''pythonExecutable'' = JStr (pythonExecutable c)"
    and "get_field kvs ''crewAgentsPath'' =
           (case crewAgentsPath c of None \<Rightarrow> JUndefined | Some p \<Rightarrow> JStr p)"
    and "get_field kvs ''defaultTimeout'' = JUndefined \<and> defaultTimeout c = 300000
           \<or> get_field kvs ''defaultTimeout'' = JNum (defaultTimeout c) \<and> 0 < defaultTimeout c"
    and "get_field kvs ''env'' =
           (case CrewToolConfig.env c of None \<Rightarrow> JUndefined | Some e \<Rightarrow> js_of_env e)"
  shows "validateConfig (JObj kvs) = Inr c"
proof -
  have a: "z_default z_string (JStr ''uv'') [''pythonExecutable'']
      (get_field kvs ''pythonExecutable'') = Inr (pythonExecutable c)"
    using assms(1) by (auto simp: z_default_def z_string_def)
  have b: "z_optional z_string [''crewAgentsPath''] (get_field kvs ''crewAgentsPath'') =
      Inr (crewAgentsPath c)"
    using assms(2) by (auto simp: z_optional_def z_string_def split: option.splits)
  have d: "z_default z_number_positive (JNum 300000) [''defaultTimeout'']
      (get_field kvs ''defaultTimeout'') = Inr (defaultTimeout c)"
    using assms(3) by (auto simp: z_default_def z_number_positive_def z_number_def)
  have e: "z_optional z_record_string [''env''] (get_field kvs ''env'') =
      Inr (CrewToolConfig.env c)"
    using assms(4)
    by (auto simp: z_optional_def z_record_string_def z_record_entries_embed js_of_env_def
        split: option.splits)
  show ?thesis
    unfolding validateConfig_def CrewToolConfigSchema_def by (simp add: a b d e)
qed

lemma config_accepted_fields:
  assumes "validateConfig (JObj kvs) = Inr c"
  shows "get_field kvs ''pythonExecutable'' = JUndefined \<and> pythonExecutable c = ''uv''
           \<or> get_field kvs ''pythonExecutable'' = JStr (pythonExecutable c)"
    and "get_field kvs ''crewAgentsPath'' =
           (case crewAgentsPath c of None \<Rightarrow> JUndefined | Some p \<Rightarrow> JStr p)"
    and "get_field kvs ''defaultTimeout'' = JUndefined \<and> defaultTimeout c = 300000
           \<or> get_field kvs ''defaultTimeout'' = JNum (defaultTimeout c) \<and> 0 < defaultTimeout c"
    and "get_field kvs ''env'' =
           (case CrewToolConfig.env c of None \<Rightarrow> JUndefined | Some e \<Rightarrow> js_of_env e)"
proof -
  from assms have
    a: "z_default z_string (JStr ''uv'') [''pythonExecutable'']
      (get_field kvs ''pythonExecutable'') = Inr (pythonExecutable c)"
    and b: "z_optional z_string [''crewAgentsPath''] (get_field kvs ''crewAgentsPath'') =
      Inr (crewAgentsPath c)"
    and d: "z_default z_number_positive (JNum 300000) [''defaultTimeout'']
      (get_field kvs ''defaultTimeout'') = Inr (defaultTimeout c)"
    and e: "z_optional z_record_string [''env''] (get_field kvs ''env'') =
      Inr (CrewToolConfig.env c)"
    by (auto elim: config_Inr)
  show "get_field kvs ''pythonExecutable'' = JUndefined \<and> pythonExecutable c = ''uv''
           \<or> get_field kvs ''pythonExecutable'' = JStr (pythonExecutable c)"
    using a by (cases "get_field kvs ''pythonExecutable''") (auto simp: z_default_def z_string_def)
  show "get_field kvs ''crewAgentsPath'' =
           (case crewAgentsPath c of None \<Rightarrow> JUndefined | Some p \<Rightarrow> JStr p)"
    using z_optional_Inr [OF b] by (auto dest: z_string_Inr)
  show "get_field kvs ''defaultTimeout'' = JUndefined \<and> defaultTimeout c = 300000
           \<or> get_field kvs ''defaultTimeout'' = JNum (defaultTimeout c) \<and> 0 < defaultTimeout c"
    using d by (cases "get_field kvs ''defaultTimeout''")
      (auto simp: z_default_def z_number_positive_def z_number_def split: if_splits)
  show "get_field kvs ''env'' =
           (case CrewToolConfig.env c of None \<Rightarrow> JUndefined | Some e \<Rightarrow> js_of_env e)"
    using z_optional_Inr [OF e] by (auto dest: z_record_string_Inr)
qed

lemma config_not_object:
  assumes "\<forall>kvs. v \<noteq> JObj kvs"
  shows "validateConfig v = Inl [ZodIssue invalid_type [] None]"
  using assms by (cases v) (auto simp: validateConfig_def CrewToolConfigSchema_def)

lemma config_sole_nonpositive:
  assumes "r \<le> 0"
  shows "validateConfig (JObj [(''defaultTimeout'', JNum r)]) =
     Inl [ZodIssue too_small [''defaultTimeout''] None]"
  using assms by (simp add: eval_config)

section \<open>The claims\<close>

subsection \<open>The error class\<close>

text \<open>
  C10. For every message, category and optional details map passed to the constructor of
  \<open>CrewToolError\<close>, the constructed object is an \<open>Error\<close> with the name \<^verbatim>\<open>CrewToolError\<close>
  whose message, category and details are the constructor arguments; the category is drawn
  from an enumeration of exactly five values.
\<close>

theorem CrewToolError_constructor:
  "name (new_CrewToolError msg cat det) = ''CrewToolError''
   \<and> message (new_CrewToolError msg cat det) = msg
   \<and> category (new_CrewToolError msg cat det) = cat
   \<and> details (new_CrewToolError msg cat det) = det
   \<and> Error.truncate (new_CrewToolError msg cat det) = (new_Error msg) \<lparr>name := ''CrewToolError''\<rparr>
   \<and> (UNIV :: CrewToolErrorCategory set) = {Config, Validation, Subprocess, Crew, Communication}
   \<and> distinct [Config, Validation, Subprocess, Crew, Communication]"
proof -
  have "x \<in> {Config, Validation, Subprocess, Crew, Communication}" for x
    by (cases x) simp_all
  then have "(UNIV :: CrewToolErrorCategory set) = {Config, Validation, Subprocess, Crew, Communication}"
    by blast
  then show ?thesis
    by (simp add: new_CrewToolError_def new_Error_def Error.extend_def CrewToolError.fields_def
        Error.truncate_def)
qed

subsection \<open>The configuration validator\<close>

text \<open>
  C7, as stated, does not hold in one point: the rejection of a default timeout that is zero
  or negative does not name the offending value. The schema uses the stock check of the
  library with no message of its own, and the error is the same for \<open>-5\<close> and for \<open>-7\<close>:
  one issue, of kind \<^verbatim>\<open>too_small\<close>, at the path \<^verbatim>\<open>defaultTimeout\<close>.
\<close>

theorem rejection_does_not_name_value:
  "validateConfig (JObj [(''defaultTimeout'', JNum (- 5))]) =
     Inl [ZodIssue too_small [''defaultTimeout''] None]
   \<and> validateConfig (JObj [(''defaultTimeout'', JNum (- 7))]) =
     Inl [ZodIssue too_small [''defaultTimeout''] None]"
  by (simp add: eval_config)

text \<open>
  C7, amended. For every untyped configuration value the validator either returns a
  normalized configuration or raises (with at least one issue; a value that is not an object
  is refused); a property outside the schema is ignored; an object is accepted exactly with
  the configuration that has the executable path of the object, or \<^verbatim>\<open>uv\<close> when it is
  missing, its package path and its environment as they are, and its default timeout when
  that is a number greater than zero, or 300000 when it is missing; a default timeout that is
  zero or negative is rejected with an issue of kind \<^verbatim>\<open>too_small\<close> whose path names the
  property \<^verbatim>\<open>defaultTimeout\<close>, the same for every such value; and every accepted
  configuration has a default timeout greater than zero.
\<close>

theorem validateConfig_normalizes:
  "((\<exists>c. validateConfig v = Inr c) \<or> (\<exists>is. validateConfig v = Inl is \<and> is \<noteq> []))
   \<and> ((\<forall>kvs. v \<noteq> JObj kvs) \<longrightarrow> validateConfig v = Inl [ZodIssue invalid_type [] None])
   \<and> (k \<notin> {''pythonExecutable'', ''crewAgentsPath'', ''defaultTimeout'', ''env''} \<longrightarrow>
        validateConfig (JObj (xs @ (k, x) # ys)) = validateConfig (JObj (xs @ ys)))
   \<and> (validateConfig (JObj kvs) = Inr c \<longleftrightarrow>
        (get_field kvs ''pythonExecutable'' = JUndefined \<and> pythonExecutable c = ''uv''
           \<or> get_field kvs ''pythonExecutable'' = JStr (pythonExecutable c))
        \<and> get_field kvs ''crewAgentsPath'' =
             (case crewAgentsPath c of None \<Rightarrow> JUndefined | Some p \<Rightarrow> JStr p)
        \<and> (get_field kvs ''defaultTimeout'' = JUndefined \<and> defaultTimeout c = 300000
           \<or> get_field kvs ''defaultTimeout'' = JNum (defaultTimeout c) \<and> 0 < defaultTimeout c)
        \<and> get_field kvs ''env'' =
             (case CrewToolConfig.env c of None \<Rightarrow> JUndefined | Some e \<Rightarrow> js_of_env e))
   \<and> (get_field kvs ''defaultTimeout'' = JNum r \<and> r \<le> 0 \<longrightarrow>
        (\<exists>is. validateConfig (JObj kvs) = Inl is \<and>
              ZodIssue too_small [''defaultTimeout''] None \<in> set is))
   \<and> (r \<le> 0 \<longrightarrow>
        validateConfig (JObj [(''defaultTimeout'', JNum r)]) =
          Inl [ZodIssue too_small [''defaultTimeout''] None])
   \<and> (validateConfig v = Inr c2 \<longrightarrow> 0 < defaultTimeout c2)"
proof -
  have total: "(\<exists>c. validateConfig v = Inr c) \<or> (\<exists>is. validateConfig v = Inl is \<and> is \<noteq> [])"
    by (cases "validateConfig v") (auto dest: config_Inl_nonempty)
  have iff: "validateConfig (JObj kvs) = Inr c \<longleftrightarrow>
        (get_field kvs ''pythonExecutable'' = JUndefined \<and> pythonExecutable c = ''uv''
           \<or> get_field kvs ''pythonExecutable'' = JStr (pythonExecutable c))
        \<and> get_field kvs ''crewAgentsPath'' =
             (case crewAgentsPath c of None \<Rightarrow> JUndefined | Some p \<Rightarrow> JStr p)
        \<and> (get_field kvs ''defaultTimeout'' = JUndefined \<and> defaultTimeout c = 300000
           \<or> get_field kvs ''defaultTimeout'' = JNum (defaultTimeout c) \<and> 0 < defaultTimeout c)
        \<and> get_field kvs ''env'' =
             (case CrewToolConfig.env c of None \<Rightarrow> JUndefined | Some e \<Rightarrow> js_of_env e)"
    using config_accepts [of kvs c] config_accepted_fields [of kvs c] by blast
  show ?thesis
    using total config_not_object [of v] config_unknown_ignored [of k xs x ys] iff
      config_rejects_nonpositive [of kvs r] config_sole_nonpositive [of r]
      config_timeout_positive [of v c2]
    by blast
qed

theorem validateConfig_normalizes_witness:
  "validateConfig (JObj [(''verbose'', JBool True)]) =
     Inr \<lparr>pythonExecutable = ''uv'', crewAgentsPath = None, defaultTimeout = 300000, env = None\<rparr>
   \<and> validateConfig (JObj [(''verbose'', JBool True)]) = validateConfig (JObj [])
   \<and> validateConfig (JObj [(''pythonExecutable'', JStr ''python3''),
        (''crewAgentsPath'', JStr ''./python''), (''defaultTimeout'', JNum 1000),
        (''env'', JObj [(''A'', JStr ''1'')])]) =
     Inr \<lparr>pythonExecutable = ''python3'', crewAgentsPath = Some ''./python'',
          defaultTimeout = 1000, env = Some [(''A'', ''1'')]\<rparr>
   \<and> validateConfig JNull = Inl [ZodIssue invalid_type [] None]
   \<and> validateConfig (JObj [(''defaultTimeout'', JNum (- 5))]) =
     Inl [ZodIssue too_small [''defaultTimeout''] None]
   \<and> (0::real) < 300000"
proof -
  let ?c = "\<lparr>pythonExecutable = ''uv'', crewAgentsPath = None, defaultTimeout = 300000, env = None\<rparr>"
  let ?d = "\<lparr>pythonExecutable = ''python3'', crewAgentsPath = Some ''./python'',
          defaultTimeout = 1000, env = Some [(''A'', ''1'')]\<rparr>"
  let ?kd = "[(''pythonExecutable'', JStr ''python3''),
        (''crewAgentsPath'', JStr ''./python''), (''defaultTimeout'', JNum 1000),
        (''env'', JObj [(''A'', JStr ''1'')])]"
  have k: "''verbose'' \<notin> {''pythonExecutable'', ''crewAgentsPath'', ''defaultTimeout'', ''env''}"
    by simp
  have n: "\<forall>kvs. JNull \<noteq> JObj kvs" by simp
  have f: "(get_field ?kd ''pythonExecutable'' = JUndefined \<and> pythonExecutable ?d = ''uv''
           \<or> get_field ?kd ''pythonExecutable'' = JStr (pythonExecutable ?d))
        \<and> get_field ?kd ''crewAgentsPath'' =
             (case crewAgentsPath ?d of None \<Rightarrow> JUndefined | Some p \<Rightarrow> JStr p)
        \<and> (get_field ?kd ''defaultTimeout'' = JUndefined \<and> defaultTimeout ?d = 300000
           \<or> get_field ?kd ''defaultTimeout'' = JNum (defaultTimeout ?d) \<and> 0 < defaultTimeout ?d)
        \<and> get_field ?kd ''env'' =
             (case CrewToolConfig.env ?d of None \<Rightarrow> JUndefined | Some e \<Rightarrow> js_of_env e)"
    by (simp add: get_field_def js_of_env_def)
  have g: "(get_field [] ''pythonExecutable'' = JUndefined \<and> pythonExecutable ?c = ''uv''
           \<or> get_field [] ''pythonExecutable'' = JStr (pythonExecutable ?c))
        \<and> get_field [] ''crewAgentsPath'' =
             (case crewAgentsPath ?c of None \<Rightarrow> JUndefined | Some p \<Rightarrow> JStr p)
        \<and> (get_field [] ''defaultTimeout'' = JUndefined \<and> defaultTimeout ?c = 300000
           \<or> get_field [] ''defaultTimeout'' = JNum (defaultTimeout ?c) \<and> 0 < defaultTimeout ?c)
        \<and> get_field [] ''env'' =
             (case CrewToolConfig.env ?c of None \<Rightarrow> JUndefined | Some e \<Rightarrow> js_of_env e)"
    by (simp add: get_field_def)
  have r: "(- 5 :: real) \<le> 0" by simp
  from validateConfig_normalizes [of JNull "''verbose''" "[]" "JBool True" "[]" ?kd ?d "- 5" ?d]
    n f r
  have 1: "validateConfig (JObj ?kd) = Inr ?d"
    and 2: "validateConfig JNull = Inl [ZodIssue invalid_type [] None]"
    and 3: "validateConfig (JObj [(''defaultTimeout'', JNum (- 5))]) =
      Inl [ZodIssue too_small [''defaultTimeout''] None]"
    by blast+
  from validateConfig_normalizes [of "JObj []" "''verbose''" "[]" "JBool True" "[]" "[]" ?c "- 5" ?c]
    k g
  have 4: "validateConfig (JObj ([] @ (''verbose'', JBool True) # [])) = validateConfig (JObj ([] @ []))"
    and 5: "validateConfig (JObj []) = Inr ?c"
    by blast+
  from 1 2 3 4 5 show ?thesis by simp
qed

subsection \<open>The request validator\<close>

text \<open>
  C9. A request that already satisfies the invocation schema (package and crew non-empty and
  matching the identifier pattern, any input, a timeout absent or strictly positive, an
  environment absent or a flat map of strings) is returned unchanged; whatever the validator
  returns agrees with its argument on each of the five properties; and validating the
  returned request again returns it again.
\<close>

theorem validateInvokeOptions_idempotent:
  "(ident_regex_test (package r) \<and> ident_regex_test (crew r) \<and> (\<forall>t. timeout r = Some t \<longrightarrow> 0 < t) \<longrightarrow>
      validateInvokeOptions (js_of_options r) = Inr r)
   \<and> (validateInvokeOptions (JObj kvs) = Inr r' \<longrightarrow>
        get_field kvs ''package'' = JStr (package r')
        \<and> get_field kvs ''crew'' = JStr (crew r')
        \<and> get_field kvs ''input'' = JStr (input r')
        \<and> get_field kvs ''timeout'' = (case timeout r' of None \<Rightarrow> JUndefined | Some t \<Rightarrow> JNum t)
        \<and> get_field kvs ''env'' =
            (case InvokeCrewOptions.env r' of None \<Rightarrow> JUndefined | Some e \<Rightarrow> js_of_env e))
   \<and> (validateInvokeOptions v = Inr r'' \<longrightarrow> validateInvokeOptions (js_of_options r'') = Inr r'')"
proof -
  have idem: "validateInvokeOptions (js_of_options r'') = Inr r''" if h: "validateInvokeOptions v = Inr r''"
  proof -
    from h obtain kvs' where "v = JObj kvs'" by (rule options_Inr)
    with h have "validateInvokeOptions (JObj kvs') = Inr r''" by simp
    then show ?thesis
      by (intro options_embed options_fields(6-8))
  qed
  show ?thesis
    using options_embed [of r] options_fields(1-5) [of kvs r'] idem
    by blast
qed

theorem validateInvokeOptions_idempotent_witness:
  "validateInvokeOptions
     (js_of_options \<lparr>package = ''pkg'', crew = ''game_builder'', input = [], timeout = Some 600000,
        env = Some [(''A'', ''2'')]\<rparr>) =
   Inr \<lparr>package = ''pkg'', crew = ''game_builder'', input = [], timeout = Some 600000,
        env = Some [(''A'', ''2'')]\<rparr>
   \<and> get_field [(''package'', JStr ''pkg''), (''crew'', JStr ''game_builder''), (''input'', JStr [])]
        ''timeout'' = JUndefined"
proof -
  let ?r = "\<lparr>package = ''pkg'', crew = ''game_builder'', input = [], timeout = Some (600000::real),
        env = Some [(''A'', ''2'')]\<rparr>"
  let ?r' = "\<lparr>package = ''pkg'', crew = ''game_builder'', input = [], timeout = None,
        env = None\<rparr>"
  let ?kvs = "[(''package'', JStr ''pkg''), (''crew'', JStr ''game_builder''), (''input'', JStr [])]"
  have a: "ident_regex_test (package ?r)" "ident_regex_test (crew ?r)"
    "\<forall>t. timeout ?r = Some t \<longrightarrow> 0 < t"
    by (simp_all add: ident_regex_test_def ident_char_def)
  have b: "validateInvokeOptions (JObj ?kvs) = Inr ?r'"
    by (simp add: eval_options)
  from validateInvokeOptions_idempotent [of ?r ?kvs ?r' "JObj ?kvs" ?r'] a b
  show ?thesis by simp
qed

section \<open>Facts about the supervisor\<close>

lemma collect_concat: "collect chunks = concat chunks"
proof -
  have "foldl (\<lambda>acc data. acc @ data) a chunks = a @ concat chunks" for a
    by (induction chunks arbitrary: a) simp_all
  from this [of "[]"] show ?thesis by (simp add: collect_def)
qed

lemma trim_Nil: "trim [] = []"
  by (simp add: trim_def)

lemma dropWhile_prefix:
  assumes "\<forall>x\<in>set a. P x" "ys = [] \<or> \<not> P (hd ys)"
  shows "dropWhile P (a @ ys) = ys"
proof -
  have "dropWhile P (a @ ys) = dropWhile P ys"
    using assms(1) by (induction a) simp_all
  also have "\<dots> = ys"
    using assms(2) by (cases ys) auto
  finally show ?thesis .
qed

lemma trim_surrounding:
  assumes "list_all is_space a" "list_all is_space b"
    and "s = [] \<or> (\<not> is_space (hd s) \<and> \<not> is_space (last s))"
  shows "trim (a @ s @ b) = s"
proof (cases "s = []")
  case True
  with assms(1,2) have "\<forall>x\<in>set (a @ s @ b). is_space x"
    by (auto simp: list_all_iff)
  then have "dropWhile is_space (a @ s @ b) = []"
    by (simp only: dropWhile_eq_Nil_conv)
  then have "trim (a @ s @ b) = []"
    by (simp only: trim_def rev.simps dropWhile.simps)
  with True show ?thesis by simp
next
  case False
  with assms(3) have h: "\<not> is_space (hd s)" and l: "\<not> is_space (last s)" by auto
  have 1: "dropWhile is_space (a @ (s @ b)) = s @ b"
    using assms(1) h False by (intro dropWhile_prefix) (auto simp: list_all_iff)
  have 2: "dropWhile is_space (rev b @ rev s) = rev s"
    using assms(2) l False by (intro dropWhile_prefix) (auto simp: list_all_iff hd_rev)
  show ?thesis
    unfolding trim_def 1 using 2 by simp
qed

lemma crew_result_exclusive:
  "(success (crew_result e t) \<longleftrightarrow> output (crew_result e t) \<noteq> None \<and> error (crew_result e t) = None)
   \<and> (\<not> success (crew_result e t) \<longleftrightarrow> error (crew_result e t) \<noteq> None \<and> output (crew_result e t) = None)"
  by (simp add: crew_result_def Let_def)

lemma invokeCrew_resolved:
  assumes "settled (invokeCrew validate spawn config options) = Some (Inr r)"
  obtains proc kills e t where "validate options = None"
    and "spawn (pythonExecutable config) (crew_args options) = Spawned proc"
    and "await_exit proc (setTimeout_delay (effective_timeout config options)) =
           Some (kills, e, t)"
    and "r = crew_result e t"
  using assms unfolding invokeCrew_def
  by (auto simp: Let_def split: option.splits spawn_result.splits prod.splits)

lemma invokeCrew_spawned:
  assumes "validate options = None"
    and "spawn (pythonExecutable config) (crew_args options) = Spawned proc"
  shows "invokeCrew validate spawn config options =
     (case await_exit proc (setTimeout_delay (effective_timeout config options)) of
        None \<Rightarrow>
          \<lparr>effects = [Spawn (pythonExecutable config) (crew_args options) None,
                      SetTimeout (effective_timeout config options),
                      Kill SIGTERM (setTimeout_delay (effective_timeout config options))],
           settled = None\<rparr>
      | Some (kills, e, elapsed) \<Rightarrow>
          \<lparr>effects = [Spawn (pythonExecutable config) (crew_args options) None,
                      SetTimeout (effective_timeout config options)] @ kills @ [ClearTimeout],
           settled = Some (Inr (crew_result e elapsed))\<rparr>)"
  using assms unfolding invokeCrew_def by (simp add: Let_def)

lemma invokeCrew_spawn_throws:
  assumes "validate options = None"
    and "spawn (pythonExecutable config) (crew_args options) = SpawnThrows m"
  shows "invokeCrew validate spawn config options =
     \<lparr>effects = [Spawn (pythonExecutable config) (crew_args options) None],
      settled = Some (Inl (catch_block (ThrownOther m)))\<rparr>"
  using assms unfolding invokeCrew_def by (simp add: Let_def)

lemma await_exit_natural:
  assumes "natural proc = Some e" "real (exit_after e) < ms"
  shows "await_exit proc ms = Some ([], e, real (exit_after e))"
  using assms by (simp add: await_exit_def)

lemma await_exit_deadline:
  assumes "case natural proc of None \<Rightarrow> True | Some n \<Rightarrow> ms \<le> real (exit_after n)"
  shows "await_exit proc ms = after_kill proc ms"
  using assms by (auto simp: await_exit_def split: option.splits)

lemma await_exit_kills:
  assumes "await_exit proc ms = Some (kills, e, t)"
  shows "kills = [] \<or> kills = [Kill SIGTERM ms]"
  using assms by (auto simp: await_exit_def after_kill_def split: option.splits if_splits)

lemma setTimeout_delay_exact:
  assumes "1 \<le> n" "n \<le> 2147483647"
  shows "setTimeout_delay (of_int n) = of_int n"
  using assms by (simp add: setTimeout_delay_def)

lemma setTimeout_delay_1000: "setTimeout_delay 1000 = 1000"
  using setTimeout_delay_exact [of 1000] by simp

lemma setTimeout_delay_clamped: "setTimeout_delay 3000000000 = 1"
  by (simp add: setTimeout_delay_def)

lemmas eval_run =
  sample_config_def sample_options_def empty_executable_config_def node_spawn_def
  spawn_failing_def spawn_hanging_def spawn_never_exits_def spawn_lingering_def
  failing_process_def hanging_process_def never_exits_def lingering_process_def
  effective_timeout_def setTimeout_delay_1000 crew_args_def await_exit_def
  after_kill_def crew_result_def collect_def catch_block_def new_CrewToolError_def new_Error_def
  Error.extend_def CrewToolError.fields_def

lemma validateOptions_sample: "validateOptions sample_options = None"
  by (simp add: validateOptions_def sample_options_def eval_options)

lemma run_failing:
  "invokeCrew validateOptions spawn_failing sample_config sample_options =
     \<lparr>effects = [Spawn ''uv'' [''run'', ''crew-agents'', ''run'', ''pkg'', ''fails'', ''--input'', ''x'']
                   None,
                 SetTimeout 1000, ClearTimeout],
      settled = Some (Inr \<lparr>success = False, output = None, error = Some ''boom'',
                           exitCode = Some 2, duration = 20\<rparr>)\<rparr>"
  by (simp add: invokeCrew_def validateOptions_sample Let_def) (simp add: eval_run)

subsection \<open>The result of an invocation\<close>

text \<open>
  C5. For every result produced by \<open>invokeCrew\<close>, exactly one of the output and the error
  message is populated, determined by the success flag: the call succeeded iff the output
  is defined and the error message is undefined, and it failed iff the error message is
  defined and the output is undefined.
\<close>

theorem result_mutual_exclusion:
  assumes "settled (invokeCrew validate spawn config options) = Some (Inr r)"
  shows "(success r \<longleftrightarrow> output r \<noteq> None \<and> error r = None)
       \<and> (\<not> success r \<longleftrightarrow> error r \<noteq> None \<and> output r = None)"
proof -
  from assms obtain e t where r: "r = crew_result e t"
    by (rule invokeCrew_resolved)
  show ?thesis
    unfolding r by (rule crew_result_exclusive)
qed

theorem result_mutual_exclusion_witness:
  "settled (invokeCrew validateOptions spawn_failing sample_config sample_options) =
     Some (Inr \<lparr>success = False, output = None, error = Some ''boom'', exitCode = Some 2,
                duration = 20\<rparr>)
   \<and> error \<lparr>success = False, output = None, error = Some ''boom'', exitCode = Some 2,
              duration = 20\<rparr> \<noteq> None"
proof -
  have s: "settled (invokeCrew validateOptions spawn_failing sample_config sample_options) =
     Some (Inr \<lparr>success = False, output = None, error = Some ''boom'', exitCode = Some 2,
                duration = 20\<rparr>)"
    by (simp add: run_failing)
  from result_mutual_exclusion [OF s] s show ?thesis by simp
qed

text \<open>
  C6. When the child process exits by itself before the timer fires: with exit code 0 the
  result has succeeded, its exit code is 0 and its output is the collected standard output
  with the surrounding whitespace trimmed (an empty standard output gives the output
  \<^verbatim>\<open>""\<close>); with an exit code \<open>c\<close> other than 0 the result has failed, its exit code is \<open>c\<close>
  and its error message is the collected standard error when that is not empty and
  \<^verbatim>\<open>Crew execution failed\<close> otherwise.
\<close>

theorem natural_exit_result:
  assumes "validate options = None"
    and "spawn (pythonExecutable config) (crew_args options) = Spawned proc"
    and "natural proc = Some e"
    and "real (exit_after e) < setTimeout_delay (effective_timeout config options)"
  shows "(exit_code e = Some 0 \<longrightarrow>
            settled (invokeCrew validate spawn config options) =
              Some (Inr \<lparr>success = True, output = Some (trim (concat (stdout_chunks e))),
                         error = None, exitCode = Some 0, duration = real (exit_after e)\<rparr>))
       \<and> (exit_code e = Some 0 \<and> concat (stdout_chunks e) = [] \<longrightarrow>
            settled (invokeCrew validate spawn config options) =
              Some (Inr \<lparr>success = True, output = Some [], error = None, exitCode = Some 0,
                         duration = real (exit_after e)\<rparr>))
       \<and> (\<forall>c. exit_code e = Some c \<and> c \<noteq> 0 \<longrightarrow>
            settled (invokeCrew validate spawn config options) =
              Some (Inr \<lparr>success = False, output = None,
                         error = Some (if concat (stderr_chunks e) \<noteq> [] then concat (stderr_chunks e)
                                       else ''Crew execution failed''),
                         exitCode = Some c, duration = real (exit_after e)\<rparr>))"
proof -
  have "invokeCrew validate spawn config options =
      \<lparr>effects = [Spawn (pythonExecutable config) (crew_args options) None,
                  SetTimeout (effective_timeout config options)] @ [] @ [ClearTimeout],
       settled = Some (Inr (crew_result e (real (exit_after e))))\<rparr>"
    using invokeCrew_spawned [of validate options spawn config proc, OF assms(1,2)]
      await_exit_natural [OF assms(3,4)] by simp
  then have s: "settled (invokeCrew validate spawn config options) =
      Some (Inr (crew_result e (real (exit_after e))))"
    by simp
  have ok: "crew_result e t =
      \<lparr>success = True, output = Some (trim (concat (stdout_chunks e))), error = None,
       exitCode = Some 0, duration = t\<rparr>" if "exit_code e = Some 0" for t
    using that by (simp add: crew_result_def collect_concat)
  have empty: "crew_result e t =
      \<lparr>success = True, output = Some [], error = None, exitCode = Some 0, duration = t\<rparr>"
    if "exit_code e = Some 0" "concat (stdout_chunks e) = []" for t
    using ok [OF that(1)] by (simp only: that(2) trim_Nil)
  have failed: "crew_result e t =
      \<lparr>success = False, output = None,
       error = Some (if concat (stderr_chunks e) \<noteq> [] then concat (stderr_chunks e)
                     else ''Crew execution failed''),
       exitCode = Some c, duration = t\<rparr>" if "exit_code e = Some c" "c \<noteq> 0" for t c
    using that by (simp add: crew_result_def collect_concat)
  show ?thesis
    unfolding s using ok empty failed by blast
qed

theorem natural_exit_result_witness:
  "settled (invokeCrew validateOptions spawn_succeeding sample_config sample_options) =
     Some (Inr \<lparr>success = True, output = Some ''hello world'', error = None, exitCode = Some 0,
                duration = 30\<rparr>)
   \<and> settled (invokeCrew validateOptions spawn_silent sample_config sample_options) =
     Some (Inr \<lparr>success = True, output = Some [], error = None, exitCode = Some 0,
                duration = 5\<rparr>)
   \<and> settled (invokeCrew validateOptions spawn_failing sample_config sample_options) =
     Some (Inr \<lparr>success = False, output = None, error = Some ''boom'', exitCode = Some 2,
                duration = 20\<rparr>)"
proof -
  let ?e1 = "\<lparr>exit_after = 30, exit_code = Some 0,
              stdout_chunks = [''  hello'', '' world'' @ [CHR 0x0A]],
              stderr_chunks = [''warning'']\<rparr>"
  let ?e2 = "\<lparr>exit_after = 5, exit_code = Some 0, stdout_chunks = [], stderr_chunks = []\<rparr>"
  let ?e3 = "\<lparr>exit_after = 20, exit_code = Some 2, stdout_chunks = [],
              stderr_chunks = [''bo'', ''om'']\<rparr>"
  have ms: "setTimeout_delay (effective_timeout sample_config sample_options) = 1000"
    by (simp add: effective_timeout_def sample_options_def setTimeout_delay_1000)
  have a1: "spawn_succeeding (pythonExecutable sample_config) (crew_args sample_options) =
      Spawned succeeding_process"
    and a2: "spawn_silent (pythonExecutable sample_config) (crew_args sample_options) =
      Spawned silent_process"
    and a3: "spawn_failing (pythonExecutable sample_config) (crew_args sample_options) =
      Spawned failing_process"
    by (simp_all add: spawn_succeeding_def spawn_silent_def spawn_failing_def node_spawn_def
        sample_config_def)
  have b1: "natural succeeding_process = Some ?e1"
    and b2: "natural silent_process = Some ?e2"
    and b3: "natural failing_process = Some ?e3"
    by (simp_all add: succeeding_process_def silent_process_def failing_process_def)
  have c1: "real (exit_after ?e1) < setTimeout_delay (effective_timeout sample_config sample_options)"
    and c2: "real (exit_after ?e2) < setTimeout_delay (effective_timeout sample_config sample_options)"
    and c3: "real (exit_after ?e3) < setTimeout_delay (effective_timeout sample_config sample_options)"
    by (simp_all add: ms)
  from natural_exit_result [of validateOptions sample_options spawn_succeeding sample_config
      succeeding_process ?e1, OF validateOptions_sample a1 b1 c1]
  have 1: "settled (invokeCrew validateOptions spawn_succeeding sample_config sample_options) =
     Some (Inr \<lparr>success = True, output = Some ''hello world'', error = None, exitCode = Some 0,
                duration = 30\<rparr>)"
    by (simp add: trim_def is_space_def)
  from natural_exit_result [of validateOptions sample_options spawn_silent sample_config
      silent_process ?e2, OF validateOptions_sample a2 b2 c2]
  have 2: "settled (invokeCrew validateOptions spawn_silent sample_config sample_options) =
     Some (Inr \<lparr>success = True, output = Some [], error = None, exitCode = Some 0,
                duration = 5\<rparr>)"
    by (simp add: trim_Nil)
  from natural_exit_result [of validateOptions sample_options spawn_failing sample_config
      failing_process ?e3, OF validateOptions_sample a3 b3 c3]
  have 3: "settled (invokeCrew validateOptions spawn_failing sample_config sample_options) =
     Some (Inr \<lparr>success = False, output = None, error = Some ''boom'', exitCode = Some 2,
                duration = 20\<rparr>)"
    by simp
  from 1 2 3 show ?thesis by blast
qed

subsection \<open>The effective timeout\<close>

lemma timeout_override_applied:
  assumes "validate options = None"
    and "spawn (pythonExecutable config) (crew_args options) = Spawned proc"
  shows "SetTimeout ms \<in> set (effects (invokeCrew validate spawn config options)) \<longleftrightarrow>
           ms = (case timeout options of Some ov \<Rightarrow> ov | None \<Rightarrow> defaultTimeout config)"
proof -
  let ?out = "invokeCrew validate spawn config options"
  define ms0 where "ms0 = effective_timeout config options"
  have eq: "(case timeout options of Some ov \<Rightarrow> ov | None \<Rightarrow> defaultTimeout config) = ms0"
    by (simp add: ms0_def effective_timeout_def)
  have k: "SetTimeout ms \<notin> set kills"
    if "await_exit proc (setTimeout_delay ms0) = Some (kills, e, t)" for kills e t
    using await_exit_kills [OF that] by auto
  have "effects ?out =
      (case await_exit proc (setTimeout_delay ms0) of
         None \<Rightarrow> [Spawn (pythonExecutable config) (crew_args options) None, SetTimeout ms0,
                   Kill SIGTERM (setTimeout_delay ms0)]
       | Some (kills, e, elapsed) \<Rightarrow>
           [Spawn (pythonExecutable config) (crew_args options) None, SetTimeout ms0] @ kills @
           [ClearTimeout])"
    unfolding invokeCrew_spawned [of validate options spawn config proc, OF assms] ms0_def
    by (simp split: option.splits prod.splits)
  then show ?thesis
    unfolding eq by (auto dest: k split: option.splits)
qed

lemma late_exit_reports_success:
  "invokeCrew validateOptions spawn_lingering sample_config sample_options =
     \<lparr>effects = [Spawn ''uv'' [''run'', ''crew-agents'', ''run'', ''pkg'', ''fails'', ''--input'', ''x'']
                   None,
                 SetTimeout 1000, Kill SIGTERM 1000, ClearTimeout],
      settled = Some (Inr \<lparr>success = True, output = Some ''done'', error = None,
                           exitCode = Some 0, duration = 61000\<rparr>)\<rparr>"
  by (simp add: invokeCrew_def validateOptions_sample Let_def)
    (simp add: eval_run trim_def is_space_def)

text \<open>
  C4. The claim: the delay of the deadline timer is the request's timeout when there is one
  and the configuration's default otherwise, and with a default \<open>D\<close>, an override \<open>O < D\<close>
  and a long-running target the call times out at about \<open>O\<close> and returns well before \<open>D\<close>.
  The listing of \<open>invokeCrew\<close> at such a run, with \<open>D = 5000\<close>, \<open>O = 1000\<close> and a target that
  runs on and ignores \<^verbatim>\<open>SIGTERM\<close>: the timer is set with the override and \<^verbatim>\<open>SIGTERM\<close> is
  sent at 1000 ms, but nothing follows the signal, and the call never returns.
\<close>

theorem override_without_escalation:
  "invokeCrew validateOptions spawn_never_exits sample_config sample_options =
     \<lparr>effects = [Spawn ''uv'' [''run'', ''crew-agents'', ''run'', ''pkg'', ''fails'', ''--input'', ''x'']
                   None,
                 SetTimeout 1000, Kill SIGTERM 1000],
      settled = None\<rparr>"
  by (simp add: invokeCrew_def validateOptions_sample Let_def) (simp add: eval_run)

subsection \<open>Validation before the spawn\<close>

lemma js_of_options_fields:
  assumes "js_of_options r = JObj kvs"
  shows "get_field kvs ''package'' = JStr (package r)"
    and "get_field kvs ''crew'' = JStr (crew r)"
  using assms by (auto simp: js_of_options_def get_field_def)

lemma validateOptions_rejects:
  assumes "\<not> ident_regex_test (package options) \<or> \<not> ident_regex_test (crew options)"
  shows "\<exists>is. validateOptions options =
           Some (ThrownCrewToolError (new_CrewToolError (failing_field is) Validation None))"
proof (cases "validateInvokeOptions (js_of_options options)")
  case (Inl "is")
  then show ?thesis by (auto simp: validateOptions_def)
next
  case (Inr r)
  obtain kvs where kvs: "js_of_options options = JObj kvs"
    by (simp add: js_of_options_def)
  with Inr have v: "validateInvokeOptions (JObj kvs) = Inr r" by simp
  have "package r = package options" "crew r = crew options"
    using options_fields(1,2) [OF v] js_of_options_fields [OF kvs] by simp_all
  with options_fields(6,7) [OF v] assms show ?thesis by simp
qed

lemma category_new [simp]: "category (new_CrewToolError m c d) = c"
  by (simp add: new_CrewToolError_def new_Error_def Error.extend_def CrewToolError.fields_def)

lemma name_new [simp]: "name (new_CrewToolError m c d) = ''CrewToolError''"
  by (simp add: new_CrewToolError_def new_Error_def Error.extend_def CrewToolError.fields_def)

lemma message_new [simp]: "message (new_CrewToolError m c d) = m"
  by (simp add: new_CrewToolError_def new_Error_def Error.extend_def CrewToolError.fields_def)

text \<open>
  C3. For every request whose package or crew identifier is the empty string or fails the
  pattern \<^verbatim>\<open>^[A-Za-z0-9_-]+$\<close>, an error of category validation is raised before any
  process-spawning effect: the call has no effect at all, so no child process is started.
\<close>

theorem validation_precedes_spawn:
  assumes "package options = [] \<or> \<not> ident_regex_test (package options)
         \<or> crew options = [] \<or> \<not> ident_regex_test (crew options)"
  shows "effects (invokeCrew validateOptions spawn config options) = []
       \<and> (\<exists>e. settled (invokeCrew validateOptions spawn config options) = Some (Inl e)
              \<and> name e = ''CrewToolError'' \<and> category e = Validation)"
proof -
  from assms have "\<not> ident_regex_test (package options) \<or> \<not> ident_regex_test (crew options)"
    by (auto simp: ident_regex_test_def)
  then obtain "is" where
    "validateOptions options =
       Some (ThrownCrewToolError (new_CrewToolError (failing_field is) Validation None))"
    using validateOptions_rejects by blast
  then show ?thesis
    by (simp add: invokeCrew_def catch_block_def)
qed

theorem validation_precedes_spawn_witness:
  "effects (invokeCrew validateOptions spawn_failing sample_config
      \<lparr>package = ''pkg'', crew = ''bad name!'', input = ''x'', timeout = None, env = None\<rparr>) = []
   \<and> (\<exists>e. settled (invokeCrew validateOptions spawn_failing sample_config
          \<lparr>package = ''pkg'', crew = ''bad name!'', input = ''x'', timeout = None, env = None\<rparr>) =
            Some (Inl e) \<and> name e = ''CrewToolError'' \<and> category e = Validation)"
proof -
  let ?o = "\<lparr>package = ''pkg'', crew = ''bad name!'', input = ''x'', timeout = None, env = None\<rparr>"
  have "\<not> ident_regex_test (crew ?o)"
    by (simp add: ident_regex_test_def ident_char_def)
  then have "package ?o = [] \<or> \<not> ident_regex_test (package ?o)
      \<or> crew ?o = [] \<or> \<not> ident_regex_test (crew ?o)"
    by blast
  from validation_precedes_spawn [of ?o spawn_failing sample_config, OF this]
  show ?thesis .
qed

subsection \<open>The environment of the child\<close>

lemma child_env_precedence:
  "child_env process_env config options =
     process_env ++ env_map (CrewToolConfig.env config) ++ env_map (InvokeCrewOptions.env options)
   \<and> (\<forall>k. child_env process_env config options k =
          (case env_map (InvokeCrewOptions.env options) k of
             Some v \<Rightarrow> Some v
           | None \<Rightarrow> (case env_map (CrewToolConfig.env config) k of
                        Some v \<Rightarrow> Some v
                      | None \<Rightarrow> process_env k)))"
  by (auto simp: child_env_def spawn_env_def additionalEnv_def map_add_def split: option.splits)

lemma child_env_example:
  "child_env sample_ambient sample_config sample_options ''A'' = Some ''2''
   \<and> child_env sample_ambient sample_config sample_options ''B'' = Some ''3''
   \<and> child_env sample_ambient sample_config sample_options ''HOME'' = Some ''/root''"
  by (simp add: child_env_def spawn_env_def additionalEnv_def env_map_def sample_ambient_def
      sample_config_def sample_options_def)

lemma invokeCrew_spawned_envs:
  "spawned_envs process_env (effects (invokeCrew validate spawn config options)) =
     (if validate options = None then [process_env] else [])"
proof (cases "validate options")
  case None
  show ?thesis
  proof (cases "spawn (pythonExecutable config) (crew_args options)")
    case (SpawnThrows m)
    show ?thesis
      unfolding invokeCrew_spawn_throws [of validate options spawn config m, OF None SpawnThrows]
      using None by (simp add: observed_env_def)
  next
    case (Spawned proc)
    have k: "spawned_envs process_env (kills @ es) = spawned_envs process_env es"
      if "await_exit proc ms = Some (kills, e, t)" for kills e t ms es
      using await_exit_kills [OF that] by auto
    show ?thesis
      unfolding invokeCrew_spawned [of validate options spawn config proc, OF None Spawned]
      using None by (auto simp: observed_env_def k split: option.splits)
  qed
next
  case (Some e)
  then show ?thesis by (simp add: invokeCrew_def)
qed

text \<open>
  C8. The claim: the child observes the ambient environment overlaid with the
  configuration's environment overlaid with the request's environment, so that with
  \<^verbatim>\<open>{A: "1"}\<close> in the configuration and \<^verbatim>\<open>{A: "2", B: "3"}\<close> in the request it observes
  \<^verbatim>\<open>A=2\<close> and \<^verbatim>\<open>B=3\<close>. The listing of \<open>invokeCrew\<close> at that input, in an ambient environment
  with \<^verbatim>\<open>A=0\<close>: \<^verbatim>\<open>spawn\<close> is called without options, so the child observes the ambient
  environment alone, \<^verbatim>\<open>A=0\<close> and no \<^verbatim>\<open>B\<close>.
\<close>

theorem invokeCrew_ignores_env:
  "CrewToolConfig.env sample_config = Some [(''A'', ''1'')]
   \<and> InvokeCrewOptions.env sample_options = Some [(''A'', ''2''), (''B'', ''3'')]
   \<and> effects (invokeCrew validateOptions spawn_failing sample_config sample_options) =
       [Spawn ''uv'' [''run'', ''crew-agents'', ''run'', ''pkg'', ''fails'', ''--input'', ''x'']
          None,
        SetTimeout 1000, ClearTimeout]
   \<and> spawned_envs sample_ambient
        (effects (invokeCrew validateOptions spawn_failing sample_config sample_options)) =
       [sample_ambient]
   \<and> sample_ambient ''A'' = Some ''0'' \<and> sample_ambient ''B'' = None"
  by (simp add: run_failing observed_env_def)
    (simp add: sample_config_def sample_options_def sample_ambient_def)

subsection \<open>Failures after validation\<close>

text \<open>
  C1, as stated, does not hold. The configuration validator accepts an empty executable
  path; \<^verbatim>\<open>spawn\<close> refuses it by a throw, and the \<^verbatim>\<open>catch\<close> block of the listing raises a
  \<open>CrewToolError\<close> of category subprocess instead of resolving to a failed result.
\<close>

theorem empty_executable_is_raised:
  "validateConfig (JObj [(''pythonExecutable'', JStr [])]) = Inr empty_executable_config
   \<and> invokeCrew validateOptions spawn_failing empty_executable_config sample_options =
       \<lparr>effects = [Spawn [] [''run'', ''crew-agents'', ''run'', ''pkg'', ''fails'', ''--input'', ''x'']
                     None],
        settled = Some (Inl \<lparr>name = ''CrewToolError'',
                             message = ''Unexpected error: '' @ empty_file_message,
                             category = Subprocess,
                             details = Some [(''originalError'',
                                              JObj [(''message'', JStr empty_file_message)])]\<rparr>)\<rparr>"
proof -
  have "validateConfig (JObj [(''pythonExecutable'', JStr [])]) = Inr empty_executable_config"
    by (simp add: eval_config empty_executable_config_def)
  moreover have "invokeCrew validateOptions spawn_failing empty_executable_config sample_options =
       \<lparr>effects = [Spawn [] [''run'', ''crew-agents'', ''run'', ''pkg'', ''fails'', ''--input'', ''x'']
                     None],
        settled = Some (Inl \<lparr>name = ''CrewToolError'',
                             message = ''Unexpected error: '' @ empty_file_message,
                             category = Subprocess,
                             details = Some [(''originalError'',
                                              JObj [(''message'', JStr empty_file_message)])]\<rparr>)\<rparr>"
    by (simp add: invokeCrew_def validateOptions_sample Let_def) (simp add: eval_run)
  ultimately show ?thesis by simp
qed

text \<open>
  C1, amended. For every invocation that has passed validation: when \<^verbatim>\<open>spawn\<close> returns a
  process and that process exits by itself before the timer fires with an exit code other
  than 0, the call resolves to one result, which has failed and carries a non-empty error
  message, and raises nothing; when \<^verbatim>\<open>spawn\<close> itself throws, the call raises a
  \<open>CrewToolError\<close> of category subprocess whose message is \<^verbatim>\<open>Unexpected error: \<close> followed
  by the message of the original error.
\<close>

theorem invokeCrew_after_validation:
  assumes "validate options = None"
  shows "(\<forall>m. spawn (pythonExecutable config) (crew_args options) = SpawnThrows m \<longrightarrow>
            (\<exists>e. settled (invokeCrew validate spawn config options) = Some (Inl e)
                \<and> name e = ''CrewToolError'' \<and> category e = Subprocess
                \<and> message e = ''Unexpected error: '' @ m))
       \<and> (\<forall>proc ev.
            spawn (pythonExecutable config) (crew_args options) = Spawned proc
            \<and> natural proc = Some ev
            \<and> real (exit_after ev) < setTimeout_delay (effective_timeout config options)
            \<and> exit_code ev \<noteq> Some 0 \<longrightarrow>
            (\<exists>r. settled (invokeCrew validate spawn config options) = Some (Inr r)
                \<and> \<not> success r \<and> (\<exists>m. error r = Some m \<and> m \<noteq> [])))"
proof (rule conjI)
  show "\<forall>m. spawn (pythonExecutable config) (crew_args options) = SpawnThrows m \<longrightarrow>
            (\<exists>e. settled (invokeCrew validate spawn config options) = Some (Inl e)
                \<and> name e = ''CrewToolError'' \<and> category e = Subprocess
                \<and> message e = ''Unexpected error: '' @ m)"
    using invokeCrew_spawn_throws [of validate options spawn config, OF assms]
    by (auto simp: catch_block_def)
next
  have "\<exists>r. settled (invokeCrew validate spawn config options) = Some (Inr r)
          \<and> \<not> success r \<and> (\<exists>m. error r = Some m \<and> m \<noteq> [])"
    if h: "spawn (pythonExecutable config) (crew_args options) = Spawned proc"
      "natural proc = Some ev"
      "real (exit_after ev) < setTimeout_delay (effective_timeout config options)"
      "exit_code ev \<noteq> Some 0"
    for proc ev
  proof -
    have "settled (invokeCrew validate spawn config options) =
        Some (Inr (crew_result ev (real (exit_after ev))))"
      unfolding invokeCrew_spawned [of validate options spawn config proc, OF assms h(1)]
        await_exit_natural [OF h(2,3)]
      by simp
    moreover have "\<not> success (crew_result ev (real (exit_after ev)))"
      using h(4) by (auto simp: crew_result_def Let_def split: option.splits)
    moreover have "\<exists>m. error (crew_result ev (real (exit_after ev))) = Some m \<and> m \<noteq> []"
      using h(4) by (auto simp: crew_result_def Let_def split: option.splits)
    ultimately show ?thesis by blast
  qed
  then show "\<forall>proc ev.
            spawn (pythonExecutable config) (crew_args options) = Spawned proc
            \<and> natural proc = Some ev
            \<and> real (exit_after ev) < setTimeout_delay (effective_timeout config options)
            \<and> exit_code ev \<noteq> Some 0 \<longrightarrow>
            (\<exists>r. settled (invokeCrew validate spawn config options) = Some (Inr r)
                \<and> \<not> success r \<and> (\<exists>m. error r = Some m \<and> m \<noteq> []))"
    by blast
qed

theorem invokeCrew_after_validation_witness:
  "(\<exists>e. settled (invokeCrew validateOptions spawn_failing empty_executable_config sample_options) =
          Some (Inl e)
        \<and> name e = ''CrewToolError'' \<and> category e = Subprocess
        \<and> message e = ''Unexpected error: '' @ empty_file_message)
   \<and> (\<exists>r. settled (invokeCrew validateOptions spawn_failing sample_config sample_options) =
          Some (Inr r)
        \<and> \<not> success r \<and> (\<exists>m. error r = Some m \<and> m \<noteq> []))"
proof -
  have t: "spawn_failing (pythonExecutable empty_executable_config) (crew_args sample_options) =
      SpawnThrows empty_file_message"
    by (simp add: spawn_failing_def node_spawn_def empty_executable_config_def)
  let ?e = "\<lparr>exit_after = 20, exit_code = Some 2, stdout_chunks = [],
             stderr_chunks = [''bo'', ''om'']\<rparr>"
  have f: "spawn_failing (pythonExecutable sample_config) (crew_args sample_options) =
      Spawned failing_process
    \<and> natural failing_process = Some ?e
    \<and> real (exit_after ?e) < setTimeout_delay (effective_timeout sample_config sample_options)
    \<and> exit_code ?e \<noteq> Some 0"
    by (simp add: spawn_failing_def node_spawn_def failing_process_def effective_timeout_def
        sample_options_def sample_config_def setTimeout_delay_1000)
  from invokeCrew_after_validation
    [of validateOptions sample_options spawn_failing empty_executable_config,
      OF validateOptions_sample] t
  have 1: "\<exists>e. settled (invokeCrew validateOptions spawn_failing empty_executable_config
        sample_options) = Some (Inl e)
        \<and> name e = ''CrewToolError'' \<and> category e = Subprocess
        \<and> message e = ''Unexpected error: '' @ empty_file_message"
    by blast
  from invokeCrew_after_validation
    [of validateOptions sample_options spawn_failing sample_config, OF validateOptions_sample] f
  have 2: "\<exists>r. settled (invokeCrew validateOptions spawn_failing sample_config sample_options) =
        Some (Inr r) \<and> \<not> success r \<and> (\<exists>m. error r = Some m \<and> m \<noteq> [])"
    by blast
  from 1 2 show ?thesis by blast
qed

subsection \<open>The deadline\<close>

lemma timeout_implementation_escalation:
  assumes "case natural proc of None \<Rightarrow> True | Some n \<Rightarrow> ms \<le> real (exit_after n)"
  shows "timeout_implementation proc ms =
     Kill SIGTERM ms #
       (if \<exists>e. after_SIGTERM proc = Some e \<and> exit_after e < 5000 then []
        else [Kill SIGKILL (ms + 5000)])"
  using assms by (auto simp: timeout_implementation_def split: option.splits)

text \<open>
  C2. The claim: when the timer fires on a running child, the result has failed with an
  error message that contains \<^verbatim>\<open>timed out\<close> and its exit code is absent unless the process
  reports one during the grace interval. The listing of \<open>invokeCrew\<close> at such a run: the
  child never exits by itself, the timer of 1000 ms fires, \<^verbatim>\<open>SIGTERM\<close> ends the child 10 ms
  later with the exit code \<^verbatim>\<open>null\<close> and an empty standard error; the result is the one of
  an ordinary failed exit, with exit code 1 and the generic message.
\<close>

theorem timeout_result_lacks_marker:
  "invokeCrew validateOptions spawn_hanging sample_config sample_options =
     \<lparr>effects = [Spawn ''uv'' [''run'', ''crew-agents'', ''run'', ''pkg'', ''fails'', ''--input'', ''x'']
                   None,
                 SetTimeout 1000, Kill SIGTERM 1000, ClearTimeout],
      settled = Some (Inr \<lparr>success = False, output = None, error = Some ''Crew execution failed'',
                           exitCode = Some 1, duration = 1010\<rparr>)\<rparr>"
  by (simp add: invokeCrew_def validateOptions_sample Let_def) (simp add: eval_run)

end
